theory Spec2Isabelle
  imports Main "HOL-Library.Word"
begin

section \<open>The syntax nodes of the compiler: cmd/compile/internal/gc/syntax.go\<close>

text \<open>
  A shallow embedding of the data structure of \<^verbatim>\<open>syntax.go\<close>: the \<^verbatim>\<open>Node\<close> struct with
  its payload slot (\<^verbatim>\<open>E\<close>, guarded by the marker \<^verbatim>\<open>hasVal\<close>) and the \<^verbatim>\<open>Nodes\<close>
  container, a pointer to a slice of node pointers.

  Conventions of the embedding.
  \<^item> A Go pointer is an \<open>option\<close> of an address: \<open>None\<close> is \<^verbatim>\<open>nil\<close>.
  \<^item> An \<^verbatim>\<open>interface{}\<close> value is an \<open>option\<close> of a dynamic value of type \<open>'e\<close>:
    \<open>None\<close> is the \<^verbatim>\<open>nil\<close> interface, the only value for which \<^verbatim>\<open>x == nil\<close> holds.
  \<^item> Sized integers are words; \<^verbatim>\<open>int\<close> is \<open>int\<close>.
  \<^item> A call that does not return normally (a run-time panic, or \<^verbatim>\<open>Fatalf\<close>) is the
    \<open>Inl\<close> branch of a sum.
\<close>

subsection \<open>Aborts\<close>

text \<open>
  Modelled from the spec: \<^verbatim>\<open>Fatalf\<close> is declared outside \<^verbatim>\<open>syntax.go\<close>. The
  specification calls the error it raises fatal ("aborts compilation immediately"), so a
  call of \<^verbatim>\<open>Fatalf(msg)\<close> ends the operation with \<open>Fatalf msg\<close> and nothing after it
  runs. The other two aborts are the run-time panics that the expressions
  \<^verbatim>\<open>(*n.slice)[i]\<close> of this file can raise.
\<close>

datatype abort =
    NilDereference
  | IndexOutOfRange
  | Fatalf string

subsection \<open>References and opaque collaborators\<close>

type_synonym addr = nat

type_synonym node_ptr = "addr option"  \<comment> \<open>\<^verbatim>\<open>*Node\<close>\<close>
type_synonym type_ptr = "addr option"  \<comment> \<open>\<^verbatim>\<open>*Type\<close>, not interpreted here\<close>
type_synonym name_ptr = "addr option"  \<comment> \<open>\<^verbatim>\<open>*Name\<close>, a plain attribute bundle\<close>
type_synonym sym_ptr = "addr option"   \<comment> \<open>\<^verbatim>\<open>*Sym\<close>, not interpreted here\<close>
type_synonym slice_ptr = "addr option" \<comment> \<open>\<^verbatim>\<open>*[]*Node\<close>\<close>

type_synonym Op = "8 word"     \<comment> \<open>\<^verbatim>\<open>type Op uint8\<close>; \<^verbatim>\<open>OXXX\<close> is 0\<close>
type_synonym EType = "8 word"  \<comment> \<open>a small tag declared outside this file\<close>
type_synonym Class = "8 word"  \<comment> \<open>a small tag declared outside this file\<close>
type_synonym Pragma = "16 word" \<comment> \<open>a set of flags declared outside this file\<close>

subsection \<open>Nodes: a pointer to a slice of node pointers\<close>

text \<open>\<^verbatim>\<open>type Nodes struct{ slice *[]*Node }\<close>\<close>

record Nodes =
  slice :: slice_ptr

subsection \<open>Func and Node\<close>

record Func =
  Shortname :: node_ptr
  Enter :: Nodes
  Exit :: Nodes
  Cvars :: Nodes
  Dcl :: "node_ptr list"
  Inldcl :: Nodes
  Closgen :: int
  Outerfunc :: node_ptr
  FieldTrack :: "(addr set) option"
  Outer :: node_ptr
  Ntype :: node_ptr
  Top :: int
  Closure :: node_ptr
  FCurfn :: node_ptr
  Nname :: node_ptr
  Inl_Func :: Nodes  \<comment> \<open>the field \<^verbatim>\<open>Inl\<close>\<close>
  InlCost :: "32 word"
  Depth :: "32 word"
  Endlineno :: "32 word"
  WBLineno :: "32 word"
  Pragma :: Pragma
  Dupok :: bool
  Wrapper :: bool
  Needctxt :: bool
  ReflectMethod :: bool

record 'e Node =
  Left :: node_ptr
  Right :: node_ptr
  Ninit :: Nodes
  Nbody :: Nodes
  List :: Nodes
  Rlist :: Nodes
  Type :: type_ptr
  Orig :: node_ptr
  Func :: "Func option"
  Name :: name_ptr
  Sym :: sym_ptr
  E :: "'e option"
  Xoffset :: "64 word"
  Lineno :: "32 word"
  Reg :: "16 word"
  Esc :: "16 word"
  Op :: Op
  Nointerface :: bool
  Ullman :: "8 word"
  Addable :: bool
  Etype :: EType
  Bounded :: bool
  Class :: Class
  Embedded :: "8 word"
  Colas :: bool
  Diag :: "8 word"
  Noescape :: bool
  Walkdef :: "8 word"
  Typecheck :: "8 word"
  Local :: bool
  Dodata :: "8 word"
  Initorder :: "8 word"
  Used :: bool
  Isddd :: bool
  Implicit :: bool
  Addrtaken :: bool
  Assigned :: bool
  Likely :: "8 word"
  Hasbreak :: bool
  hasVal :: "8 word"

subsection \<open>The payload slot: Val and Opt\<close>

text \<open>
  \<^verbatim>\<open>Val\<close> is declared outside this file; the code builds it as \<^verbatim>\<open>Val{n.E}\<close> and reads
  \<^verbatim>\<open>v.U\<close>, so it is a struct with the single interface field \<^verbatim>\<open>U\<close>.
\<close>

record 'e Val =
  U :: "'e option"

text \<open>
  The methods have the receiver \<^verbatim>\<open>n *Node\<close>; the setters return the updated node.
  Before \<^verbatim>\<open>Fatalf\<close> the setters set \<^verbatim>\<open>Debug['h']\<close> and call \<^verbatim>\<open>Dump\<close>, which only
  prepare the diagnostic output; the node is not written on that path.
  The comparison \<^verbatim>\<open>n.hasVal >= 0\<close> is the signed comparison of \<^verbatim>\<open>int8\<close>.
\<close>

definition Val :: "'e Node \<Rightarrow> 'e Val" where
  "Val n = (if hasVal n \<noteq> 1 then \<lparr>U = None\<rparr> else \<lparr>U = E n\<rparr>)"

definition SetVal :: "'e Node \<Rightarrow> 'e Val \<Rightarrow> abort + 'e Node" where
  "SetVal n v =
     (if hasVal n = - 1 then Inl (Fatalf ''have Opt'')
      else Inr (n\<lparr>hasVal := 1, E := U v\<rparr>))"

definition Opt :: "'e Node \<Rightarrow> 'e option" where
  "Opt n = (if hasVal n \<noteq> - 1 then None else E n)"

definition SetOpt :: "'e Node \<Rightarrow> 'e option \<Rightarrow> abort + 'e Node" where
  "SetOpt n x =
     (if x = None \<and> 0 \<le> sint (hasVal n) then Inr n
      else if hasVal n = 1 then Inl (Fatalf ''have Val'')
      else Inr (n\<lparr>hasVal := - 1, E := x\<rparr>))"

subsection \<open>Memory for the containers\<close>

text \<open>
  A \<^verbatim>\<open>Nodes\<close> value holds a pointer, so two \<^verbatim>\<open>Nodes\<close> values can share one slice
  variable, and the methods with a pointer receiver can be called with the same receiver
  and argument. The memory therefore has a store for each, and an allocation counter:
  \<^item> \<open>slices m p\<close> is the slice held by the \<^verbatim>\<open>[]*Node\<close> variable at address \<open>p\<close>;
  \<^item> \<open>vars m a\<close> is the \<^verbatim>\<open>Nodes\<close> struct at address \<open>a\<close> (a field of a node or of a
    \<^verbatim>\<open>Func\<close>, or a local variable);
  \<^item> \<open>fresh m\<close> is the address that the next new slice variable gets.
  The properties below are proved for every memory, so nothing is assumed about which
  addresses are in use.

  A slice value is the list of its elements: the \<^verbatim>\<open>nil\<close> slice and an empty slice are
  both \<open>[]\<close> (the code only ever takes \<^verbatim>\<open>len\<close> of a slice, indexes it or appends to
  it), and the sharing of backing arrays between slice values is not modelled.
\<close>

record mem =
  slices :: "addr \<Rightarrow> node_ptr list"
  vars :: "addr \<Rightarrow> Nodes"
  fresh :: addr

text \<open>The index expression \<^verbatim>\<open>s[i]\<close> on a slice, with its run-time bounds check.\<close>

definition in_range :: "'a list \<Rightarrow> int \<Rightarrow> bool" where
  "in_range s i \<longleftrightarrow> 0 \<le> i \<and> i < int (length s)"

definition index_expr :: "'a list \<Rightarrow> int \<Rightarrow> abort + 'a" where
  "index_expr s i = (if in_range s i then Inr (s ! nat i) else Inl IndexOutOfRange)"

text \<open>The assignment \<^verbatim>\<open>n.slice = p\<close> through the receiver \<^verbatim>\<open>n *Nodes\<close>.\<close>

definition set_slice :: "mem \<Rightarrow> addr \<Rightarrow> slice_ptr \<Rightarrow> mem" where
  "set_slice m n p = m\<lparr>vars := (vars m)(n := (vars m n)\<lparr>slice := p\<rparr>)\<rparr>"

text \<open>
  \<^verbatim>\<open>&s\<close> for a parameter \<^verbatim>\<open>s\<close> or a composite literal: a new slice variable holding
  \<open>s\<close>, and its address.
\<close>

definition new_slice :: "mem \<Rightarrow> node_ptr list \<Rightarrow> addr \<times> mem" where
  "new_slice m s =
     (fresh m, m\<lparr>slices := (slices m)(fresh m := s), fresh := Suc (fresh m)\<rparr>)"

text \<open>The assignment \<^verbatim>\<open>*p = s\<close> to the slice variable at \<open>p\<close>.\<close>

definition store_slice :: "mem \<Rightarrow> addr \<Rightarrow> node_ptr list \<Rightarrow> mem" where
  "store_slice m p s = m\<lparr>slices := (slices m)(p := s)\<rparr>"

subsection \<open>The methods with a value receiver\<close>

definition Slice :: "mem \<Rightarrow> Nodes \<Rightarrow> node_ptr list" where
  "Slice m n = (case slice n of None \<Rightarrow> [] | Some p \<Rightarrow> slices m p)"

definition Len :: "mem \<Rightarrow> Nodes \<Rightarrow> int" where
  "Len m n = (case slice n of None \<Rightarrow> 0 | Some p \<Rightarrow> int (length (slices m p)))"

definition Index :: "mem \<Rightarrow> Nodes \<Rightarrow> int \<Rightarrow> abort + node_ptr" where
  "Index m n i =
     (case slice n of None \<Rightarrow> Inl NilDereference | Some p \<Rightarrow> index_expr (slices m p) i)"

definition First :: "mem \<Rightarrow> Nodes \<Rightarrow> abort + node_ptr" where
  "First m n =
     (case slice n of None \<Rightarrow> Inl NilDereference | Some p \<Rightarrow> index_expr (slices m p) 0)"

definition Second :: "mem \<Rightarrow> Nodes \<Rightarrow> abort + node_ptr" where
  "Second m n =
     (case slice n of None \<Rightarrow> Inl NilDereference | Some p \<Rightarrow> index_expr (slices m p) 1)"

definition SetIndex :: "mem \<Rightarrow> Nodes \<Rightarrow> int \<Rightarrow> node_ptr \<Rightarrow> abort + mem" where
  "SetIndex m n i node =
     (case slice n of
        None \<Rightarrow> Inl NilDereference
      | Some p \<Rightarrow>
          if in_range (slices m p) i
          then Inr (store_slice m p ((slices m p)[nat i := node]))
          else Inl IndexOutOfRange)"

text \<open>
  \<^verbatim>\<open>Addr\<close> returns the address of an element: the slice variable and the position in it.
\<close>

definition Addr :: "mem \<Rightarrow> Nodes \<Rightarrow> int \<Rightarrow> abort + addr \<times> nat" where
  "Addr m n i =
     (case slice n of
        None \<Rightarrow> Inl NilDereference
      | Some p \<Rightarrow> if in_range (slices m p) i then Inr (p, nat i) else Inl IndexOutOfRange)"

subsection \<open>The methods with a pointer receiver\<close>

text \<open>
  The receiver \<open>n\<close> (and the argument \<open>n2\<close>) is the address of a \<^verbatim>\<open>Nodes\<close> variable; the
  methods return the memory after the call.
\<close>

definition Set :: "mem \<Rightarrow> addr \<Rightarrow> node_ptr list \<Rightarrow> mem" where
  "Set m n s =
     (if length s = 0 then set_slice m n None
      else case new_slice m s of (p, m') \<Rightarrow> set_slice m' n (Some p))"

definition Set1 :: "mem \<Rightarrow> addr \<Rightarrow> node_ptr \<Rightarrow> mem" where
  "Set1 m n node = (case new_slice m [node] of (p, m') \<Rightarrow> set_slice m' n (Some p))"

definition MoveNodes :: "mem \<Rightarrow> addr \<Rightarrow> addr \<Rightarrow> mem" where
  "MoveNodes m n n2 = set_slice (set_slice m n (slice (vars m n2))) n2 None"

definition Append :: "mem \<Rightarrow> addr \<Rightarrow> node_ptr list \<Rightarrow> mem" where
  "Append m n a =
     (case slice (vars m n) of
        None \<Rightarrow>
          if length a > 0 then (case new_slice m a of (p, m') \<Rightarrow> set_slice m' n (Some p))
          else m
      | Some p \<Rightarrow> store_slice m p (slices m p @ a))"

definition AppendNodes :: "mem \<Rightarrow> addr \<Rightarrow> addr \<Rightarrow> mem" where
  "AppendNodes m n n2 =
     set_slice
       (case slice (vars m n2) of
          None \<Rightarrow> m
        | Some q \<Rightarrow>
            (case slice (vars m n) of
               None \<Rightarrow> set_slice m n (Some q)
             | Some p \<Rightarrow> store_slice m p (slices m p @ slices m q)))
       n2 None"

subsection \<open>Zero values\<close>

text \<open>
  What \<^verbatim>\<open>new(Node)\<close>, \<^verbatim>\<open>new(Func)\<close> and an uninitialised \<^verbatim>\<open>Nodes\<close> hold: every pointer,
  interface, slice and map is \<^verbatim>\<open>nil\<close>, every number 0, every flag false.
\<close>

definition zero_Nodes :: Nodes where
  "zero_Nodes = \<lparr>slice = None\<rparr>"

definition zero_Func :: Func where
  "zero_Func =
     \<lparr>Shortname = None, Enter = zero_Nodes, Exit = zero_Nodes, Cvars = zero_Nodes,
      Dcl = [], Inldcl = zero_Nodes, Closgen = 0, Outerfunc = None, FieldTrack = None,
      Outer = None, Ntype = None, Top = 0, Closure = None, FCurfn = None, Nname = None,
      Inl_Func = zero_Nodes, InlCost = 0, Depth = 0, Endlineno = 0, WBLineno = 0,
      Pragma = 0, Dupok = False, Wrapper = False, Needctxt = False,
      ReflectMethod = False\<rparr>"

definition zero_Node :: "'e Node" where
  "zero_Node =
     \<lparr>Left = None, Right = None, Ninit = zero_Nodes, Nbody = zero_Nodes,
      List = zero_Nodes, Rlist = zero_Nodes, Type = None, Orig = None, Func = None,
      Name = None, Sym = None, E = None, Xoffset = 0, Lineno = 0, Reg = 0, Esc = 0,
      Op = 0, Nointerface = False, Ullman = 0, Addable = False, Etype = 0,
      Bounded = False, Class = 0, Embedded = 0, Colas = False, Diag = 0,
      Noescape = False, Walkdef = 0, Typecheck = 0, Local = False, Dodata = 0,
      Initorder = 0, Used = False, Isddd = False, Implicit = False, Addrtaken = False,
      Assigned = False, Likely = 0, Hasbreak = False, hasVal = 0\<rparr>"

subsection \<open>Calling the methods on variables\<close>

text \<open>
  \<^verbatim>\<open>c.Slice()\<close> and \<^verbatim>\<open>c.Len()\<close> for the \<^verbatim>\<open>Nodes\<close> variable at address \<open>c\<close>: the value
  receiver is a copy of the variable.
\<close>

definition contents :: "mem \<Rightarrow> addr \<Rightarrow> node_ptr list" where
  "contents m c = Slice m (vars m c)"

definition Len_of :: "mem \<Rightarrow> addr \<Rightarrow> int" where
  "Len_of m c = Len m (vars m c)"

text \<open>
  The selector \<^verbatim>\<open>n.Func.f\<close> on a node: \<^verbatim>\<open>Func\<close> is a pointer, and selecting a field
  through it dereferences it.
\<close>

definition Func_field :: "'e Node \<Rightarrow> (Func \<Rightarrow> 'a) \<Rightarrow> abort + 'a" where
  "Func_field n f = (case Func n of None \<Rightarrow> Inl NilDereference | Some fn \<Rightarrow> Inr (f fn))"

text \<open>
  A sequence of calls of the four payload methods on one node. The getters do not write
  the node; a setter that ends in \<^verbatim>\<open>Fatalf\<close> ends the whole sequence.
\<close>

datatype 'e payload_call =
    Call_Val
  | Call_SetVal "'e Val"
  | Call_Opt
  | Call_SetOpt "'e option"

fun call :: "'e Node \<Rightarrow> 'e payload_call \<Rightarrow> abort + 'e Node" where
  "call n Call_Val = Inr n"
| "call n (Call_SetVal v) = SetVal n v"
| "call n Call_Opt = Inr n"
| "call n (Call_SetOpt x) = SetOpt n x"

fun calls :: "'e Node \<Rightarrow> 'e payload_call list \<Rightarrow> abort + 'e Node" where
  "calls n [] = Inr n"
| "calls n (c # cs) = (case call n c of Inl a \<Rightarrow> Inl a | Inr n' \<Rightarrow> calls n' cs)"

subsection \<open>Example values\<close>

text \<open>
  Nodes whose payload is the number 3, once as a value and once as optimizer data, and a
  memory with the two containers \<open>dst = [x, y]\<close> at address 0 and \<open>src = [z]\<close> at
  address 1, an uninitialised container at address 2, and one at address 3 that points
  to an empty slice.
\<close>

definition val_node :: "nat Node" where
  "val_node = zero_Node\<lparr>hasVal := 1, E := Some 3\<rparr>"

definition opt_node :: "nat Node" where
  "opt_node = zero_Node\<lparr>hasVal := - 1, E := Some 3\<rparr>"

definition example_mem :: mem where
  "example_mem =
     \<lparr>slices = (\<lambda>_. [])(0 := [Some 10, Some 11], 1 := [Some 12]),
      vars = (\<lambda>_. zero_Nodes)
        (0 := \<lparr>slice = Some 0\<rparr>, 1 := \<lparr>slice = Some 1\<rparr>, 3 := \<lparr>slice = Some 2\<rparr>),
      fresh = 3\<rparr>"

section \<open>Properties of the payload slot\<close>

text \<open>
  C1. Writing the payload cross-kind is fatal: \<^verbatim>\<open>SetOpt\<close> with a non-nil argument on a
  node whose marker is value-set ends in \<^verbatim>\<open>Fatalf("have Val")\<close>, and \<^verbatim>\<open>SetVal\<close> on a node
  whose marker is optimizer-data-set ends in \<^verbatim>\<open>Fatalf("have Opt")\<close>; no node is
  returned in either case.
\<close>

theorem cross_kind_write_fatal:
  "(hasVal n = 1 \<and> x \<noteq> None \<longrightarrow> SetOpt n x = Inl (Fatalf ''have Val'')) \<and>
   (hasVal n = - 1 \<longrightarrow> SetVal n v = Inl (Fatalf ''have Opt''))"
  by (simp add: SetOpt_def SetVal_def)

theorem cross_kind_write_fatal_witness:
  "hasVal val_node = 1 \<and> Some (7::nat) \<noteq> None \<and>
   SetOpt val_node (Some 7) = Inl (Fatalf ''have Val'') \<and>
   hasVal opt_node = - 1 \<and>
   SetVal opt_node \<lparr>U = Some 7\<rparr> = Inl (Fatalf ''have Opt'')"
  using cross_kind_write_fatal [of val_node "Some 7"]
    cross_kind_write_fatal [of opt_node _ "\<lparr>U = Some 7\<rparr>"]
  by (simp add: val_node_def opt_node_def zero_Node_def)

text \<open>
  C2, as stated, fails: on a node whose marker is optimizer-data-set, \<^verbatim>\<open>SetOpt(nil)\<close>
  passes the guard \<^verbatim>\<open>x == nil && n.hasVal >= 0\<close> and stores \<^verbatim>\<open>nil\<close>, so the stored
  payload 3 of \<open>opt_node\<close> is replaced.
\<close>

theorem SetOpt_nil_changes_payload_counterexample:
  "SetOpt opt_node None = Inr (opt_node\<lparr>E := None\<rparr>) \<and>
   E opt_node = Some 3 \<and>
   E (opt_node\<lparr>E := None\<rparr>) \<noteq> E opt_node"
  by (simp add: SetOpt_def opt_node_def zero_Node_def)

text \<open>
  C2, amended. \<^verbatim>\<open>SetOpt(nil)\<close> never fails. On a node whose marker is unset or
  value-set it returns the node unchanged, every field included. On a node whose marker
  is optimizer-data-set it keeps the marker and every other field, and sets the stored
  payload to \<^verbatim>\<open>nil\<close>.
\<close>

theorem SetOpt_nil_by_marker:
  "(hasVal n = 0 \<or> hasVal n = 1 \<longrightarrow> SetOpt n None = Inr n) \<and>
   (hasVal n = - 1 \<longrightarrow> SetOpt n None = Inr (n\<lparr>E := None\<rparr>))"
  by (auto simp add: SetOpt_def)

theorem SetOpt_nil_by_marker_witness:
  "hasVal (zero_Node :: nat Node) = 0 \<and>
   SetOpt (zero_Node :: nat Node) None = Inr zero_Node \<and>
   hasVal val_node = 1 \<and> SetOpt val_node None = Inr val_node \<and>
   hasVal opt_node = - 1 \<and> SetOpt opt_node None = Inr (opt_node\<lparr>E := None\<rparr>)"
  using SetOpt_nil_by_marker [of "zero_Node :: nat Node"]
    SetOpt_nil_by_marker [of val_node] SetOpt_nil_by_marker [of opt_node]
  by (simp add: val_node_def opt_node_def zero_Node_def)

text \<open>
  C3. Whatever the marker, \<^verbatim>\<open>SetOpt(nil)\<close> returns a node, and \<^verbatim>\<open>Opt()\<close> of that node is
  \<^verbatim>\<open>nil\<close>; if the marker was value-set the node is returned as it was, so \<^verbatim>\<open>Val()\<close>
  still returns the stored value.
\<close>

theorem SetOpt_nil_clears_Opt:
  "\<exists>n'. SetOpt n None = Inr n' \<and> Opt n' = None \<and>
     (hasVal n = 1 \<longrightarrow> n' = n \<and> Val n' = Val n \<and> Val n' = \<lparr>U = E n\<rparr>)"
  by (auto simp add: SetOpt_def Opt_def Val_def)

theorem SetOpt_nil_clears_Opt_witness:
  "hasVal val_node = 1 \<and> SetOpt val_node None = Inr val_node \<and>
   Opt val_node = None \<and> Val val_node = \<lparr>U = Some 3\<rparr>"
  using SetOpt_nil_clears_Opt [of val_node]
  by (auto simp add: val_node_def zero_Node_def)

text \<open>
  C4. If \<^verbatim>\<open>SetVal(v)\<close> returns, then \<^verbatim>\<open>Val()\<close> returns \<open>v\<close> and \<^verbatim>\<open>Opt()\<close> returns \<^verbatim>\<open>nil\<close>,
  and it does return unless the marker is optimizer-data-set. If \<^verbatim>\<open>SetOpt(x)\<close> with
  \<open>x\<close> not \<^verbatim>\<open>nil\<close> returns, then \<^verbatim>\<open>Opt()\<close> returns \<open>x\<close> and \<^verbatim>\<open>Val()\<close> returns the empty
  \<^verbatim>\<open>Val{}\<close>, and it does return unless the marker is value-set. The getters are total:
  \<^verbatim>\<open>Val()\<close> is the empty \<^verbatim>\<open>Val{}\<close> whenever the marker is not value-set, and \<^verbatim>\<open>Opt()\<close> is
  \<^verbatim>\<open>nil\<close> whenever the marker is not optimizer-data-set.
\<close>

theorem getters_after_setters:
  "(SetVal n v = Inr n1 \<longrightarrow> Val n1 = v \<and> Opt n1 = None) \<and>
   (hasVal n \<noteq> - 1 \<longrightarrow> (\<exists>n'. SetVal n v = Inr n' \<and> Val n' = v \<and> Opt n' = None)) \<and>
   (x \<noteq> None \<and> SetOpt n x = Inr n2 \<longrightarrow> Opt n2 = x \<and> Val n2 = \<lparr>U = None\<rparr>) \<and>
   (x \<noteq> None \<and> hasVal n \<noteq> 1 \<longrightarrow>
      (\<exists>n'. SetOpt n x = Inr n' \<and> Opt n' = x \<and> Val n' = \<lparr>U = None\<rparr>)) \<and>
   (hasVal n \<noteq> 1 \<longrightarrow> Val n = \<lparr>U = None\<rparr>) \<and>
   (hasVal n \<noteq> - 1 \<longrightarrow> Opt n = None)"
  by (auto simp add: SetVal_def SetOpt_def Opt_def Val_def split: if_splits)

theorem getters_after_setters_witness:
  "hasVal (zero_Node :: nat Node) \<noteq> - 1 \<and> hasVal (zero_Node :: nat Node) \<noteq> 1 \<and>
   Some (7::nat) \<noteq> None \<and>
   SetVal (zero_Node :: nat Node) \<lparr>U = Some 5\<rparr> = Inr (zero_Node\<lparr>hasVal := 1, E := Some 5\<rparr>) \<and>
   Val ((zero_Node :: nat Node)\<lparr>hasVal := 1, E := Some 5\<rparr>) = \<lparr>U = Some 5\<rparr> \<and>
   Opt ((zero_Node :: nat Node)\<lparr>hasVal := 1, E := Some 5\<rparr>) = None \<and>
   SetOpt (zero_Node :: nat Node) (Some 7) = Inr (zero_Node\<lparr>hasVal := - 1, E := Some 7\<rparr>) \<and>
   Opt ((zero_Node :: nat Node)\<lparr>hasVal := - 1, E := Some 7\<rparr>) = Some 7 \<and>
   Val ((zero_Node :: nat Node)\<lparr>hasVal := - 1, E := Some 7\<rparr>) = \<lparr>U = None\<rparr> \<and>
   Val (zero_Node :: nat Node) = \<lparr>U = None\<rparr> \<and>
   Opt (zero_Node :: nat Node) = None"
  using getters_after_setters
    [of "zero_Node :: nat Node" "\<lparr>U = Some 5\<rparr>" "zero_Node\<lparr>hasVal := 1, E := Some 5\<rparr>"
      "Some 7" "zero_Node\<lparr>hasVal := - 1, E := Some 7\<rparr>"]
  by (simp add: SetVal_def SetOpt_def zero_Node_def)

text \<open>
  The marker of a node that is not unset stays so under each call, hence under every
  sequence of calls.
\<close>

lemma call_keeps_marker: "hasVal n \<noteq> 0 \<Longrightarrow> call n c = Inr n' \<Longrightarrow> hasVal n' \<noteq> 0"
  by (cases c) (auto simp add: SetVal_def SetOpt_def split: if_splits)

lemma calls_keep_marker: "hasVal n \<noteq> 0 \<Longrightarrow> calls n cs = Inr n' \<Longrightarrow> hasVal n' \<noteq> 0"
proof (induction cs arbitrary: n)
  case Nil
  then show ?case by simp
next
  case (Cons c cs)
  then show ?case
    by (auto split: sum.splits dest: call_keeps_marker)
qed

text \<open>
  C10. On a node whose marker is optimizer-data-set, \<^verbatim>\<open>SetOpt(nil)\<close> stores \<^verbatim>\<open>nil\<close> and
  leaves the marker optimizer-data-set: \<^verbatim>\<open>Opt()\<close> then returns \<^verbatim>\<open>nil\<close>, and \<^verbatim>\<open>SetVal\<close>
  still ends in \<^verbatim>\<open>Fatalf("have Opt")\<close>. And a marker that is not unset is not unset
  after any sequence of calls of \<^verbatim>\<open>Val\<close>, \<^verbatim>\<open>SetVal\<close>, \<^verbatim>\<open>Opt\<close> and \<^verbatim>\<open>SetOpt\<close> that runs to
  its end.
\<close>

theorem marker_never_unset:
  "(hasVal n = - 1 \<longrightarrow>
      SetOpt n None = Inr (n\<lparr>E := None\<rparr>) \<and>
      E (n\<lparr>E := None\<rparr>) = None \<and>
      hasVal (n\<lparr>E := None\<rparr>) = - 1 \<and>
      Opt (n\<lparr>E := None\<rparr>) = None \<and>
      SetVal (n\<lparr>E := None\<rparr>) v = Inl (Fatalf ''have Opt'')) \<and>
   (hasVal n \<noteq> 0 \<and> calls n cs = Inr n' \<longrightarrow> hasVal n' \<noteq> 0)"
proof -
  have "SetOpt n None = Inr (n\<lparr>E := None\<rparr>)" if "hasVal n = - 1"
    using that by (simp add: SetOpt_def)
  moreover have "SetVal (n\<lparr>E := None\<rparr>) v = Inl (Fatalf ''have Opt'')" if "hasVal n = - 1"
    using that by (simp add: SetVal_def)
  moreover have "hasVal n' \<noteq> 0" if "hasVal n \<noteq> 0" and "calls n cs = Inr n'"
    using that by (rule calls_keep_marker)
  ultimately show ?thesis
    by (simp add: Opt_def)
qed

theorem marker_never_unset_witness:
  "hasVal opt_node = - 1 \<and>
   SetOpt opt_node None = Inr (opt_node\<lparr>E := None\<rparr>) \<and>
   hasVal (opt_node\<lparr>E := None\<rparr>) = - 1 \<and>
   Opt (opt_node\<lparr>E := None\<rparr>) = None \<and>
   SetVal (opt_node\<lparr>E := None\<rparr>) \<lparr>U = Some 7\<rparr> = Inl (Fatalf ''have Opt'') \<and>
   hasVal opt_node \<noteq> 0 \<and>
   calls opt_node [Call_SetOpt None, Call_Val, Call_Opt, Call_SetOpt (Some 4)]
     = Inr (opt_node\<lparr>E := Some 4\<rparr>) \<and>
   hasVal (opt_node\<lparr>E := Some 4\<rparr>) \<noteq> 0"
  using marker_never_unset
    [of opt_node "\<lparr>U = Some 7\<rparr>"
      "[Call_SetOpt None, Call_Val, Call_Opt, Call_SetOpt (Some 4)]"
      "opt_node\<lparr>E := Some 4\<rparr>"]
  by (simp add: SetOpt_def opt_node_def zero_Node_def)

section \<open>Properties of the Nodes container\<close>

subsection \<open>Positional access\<close>

text \<open>
  C5. For every container value \<open>c\<close>, in every memory, and every index \<open>i\<close> with
  \<open>i \<ge> c.Len()\<close>, the calls \<^verbatim>\<open>Index(i)\<close>, \<^verbatim>\<open>SetIndex(i, node)\<close> and \<^verbatim>\<open>Addr(i)\<close> panic, and so
  do \<^verbatim>\<open>First()\<close> when \<open>0 \<ge> c.Len()\<close> and \<^verbatim>\<open>Second()\<close> when \<open>1 \<ge> c.Len()\<close>: with a nil
  pointer dereference when the container is uninitialised, with an index out of range
  otherwise. No index is clamped and nothing is written.
\<close>

theorem out_of_bounds_panics:
  "(Len m c \<le> i \<longrightarrow>
      Index m c i =
        Inl (case slice c of None \<Rightarrow> NilDereference | Some p \<Rightarrow> IndexOutOfRange) \<and>
      SetIndex m c i node =
        Inl (case slice c of None \<Rightarrow> NilDereference | Some p \<Rightarrow> IndexOutOfRange) \<and>
      Addr m c i =
        Inl (case slice c of None \<Rightarrow> NilDereference | Some p \<Rightarrow> IndexOutOfRange)) \<and>
   (Len m c \<le> 0 \<longrightarrow>
      First m c =
        Inl (case slice c of None \<Rightarrow> NilDereference | Some p \<Rightarrow> IndexOutOfRange)) \<and>
   (Len m c \<le> 1 \<longrightarrow>
      Second m c =
        Inl (case slice c of None \<Rightarrow> NilDereference | Some p \<Rightarrow> IndexOutOfRange))"
  by (simp add: Len_def Index_def SetIndex_def Addr_def First_def Second_def index_expr_def
      in_range_def split: option.split)

theorem out_of_bounds_panics_witness:
  "Len example_mem \<lparr>slice = Some 0\<rparr> \<le> 2 \<and>
   Index example_mem \<lparr>slice = Some 0\<rparr> 2 = Inl IndexOutOfRange \<and>
   SetIndex example_mem \<lparr>slice = Some 0\<rparr> 2 (Some 5) = Inl IndexOutOfRange \<and>
   Addr example_mem \<lparr>slice = Some 0\<rparr> 2 = Inl IndexOutOfRange \<and>
   Len example_mem zero_Nodes \<le> 0 \<and>
   Index example_mem zero_Nodes 0 = Inl NilDereference \<and>
   First example_mem zero_Nodes = Inl NilDereference \<and>
   Len example_mem \<lparr>slice = Some 2\<rparr> \<le> 0 \<and>
   First example_mem \<lparr>slice = Some 2\<rparr> = Inl IndexOutOfRange \<and>
   Len example_mem \<lparr>slice = Some 1\<rparr> \<le> 1 \<and>
   Second example_mem \<lparr>slice = Some 1\<rparr> = Inl IndexOutOfRange"
  using out_of_bounds_panics [of example_mem "\<lparr>slice = Some 0\<rparr>" 2 "Some 5"]
    out_of_bounds_panics [of example_mem zero_Nodes 0]
    out_of_bounds_panics [of example_mem "\<lparr>slice = Some 2\<rparr>" 0]
    out_of_bounds_panics [of example_mem "\<lparr>slice = Some 1\<rparr>" 1]
  by (simp add: example_mem_def Len_def zero_Nodes_def)

subsection \<open>Zero values\<close>

text \<open>
  C6, as stated, fails: it counts the \<^verbatim>\<open>Nodes\<close> fields of \<^verbatim>\<open>Func\<close> among the sequence
  fields of a zero-value node, but \<^verbatim>\<open>Func\<close> is a pointer and \<^verbatim>\<open>nil\<close> in a zero-value
  node, so \<^verbatim>\<open>n.Func.Enter.Len()\<close> is a nil pointer dereference and not 0.
\<close>

theorem zero_Node_Func_counterexample:
  "Func (zero_Node :: nat Node) = None \<and>
   Func_field (zero_Node :: nat Node) Enter = Inl NilDereference \<and>
   map_sum id (Len example_mem) (Func_field (zero_Node :: nat Node) Enter) \<noteq> Inr 0"
  by (simp add: Func_field_def zero_Node_def)

text \<open>
  C6, amended. For a zero-value node \<^verbatim>\<open>Val()\<close> is the empty \<^verbatim>\<open>Val{}\<close>, \<^verbatim>\<open>Opt()\<close> is
  \<^verbatim>\<open>nil\<close>, \<^verbatim>\<open>Len()\<close> of each of its four sequence fields \<^verbatim>\<open>Ninit\<close>, \<^verbatim>\<open>Nbody\<close>, \<^verbatim>\<open>List\<close>
  and \<^verbatim>\<open>Rlist\<close> is 0, and its \<^verbatim>\<open>Func\<close> is \<^verbatim>\<open>nil\<close>. In a zero-value \<^verbatim>\<open>Func\<close>, \<^verbatim>\<open>Len()\<close> of
  each of its five \<^verbatim>\<open>Nodes\<close> fields \<^verbatim>\<open>Enter\<close>, \<^verbatim>\<open>Exit\<close>, \<^verbatim>\<open>Cvars\<close>, \<^verbatim>\<open>Inldcl\<close> and \<^verbatim>\<open>Inl\<close>
  is 0. On an uninitialised \<^verbatim>\<open>Nodes\<close>, \<^verbatim>\<open>Slice()\<close> returns the empty slice and \<^verbatim>\<open>Len()\<close>
  returns 0, in every memory and without dereferencing the nil pointer.
\<close>

theorem zero_values:
  "Val (zero_Node :: 'e Node) = \<lparr>U = None\<rparr> \<and>
   Opt (zero_Node :: 'e Node) = None \<and>
   Len m (Ninit (zero_Node :: 'e Node)) = 0 \<and>
   Len m (Nbody (zero_Node :: 'e Node)) = 0 \<and>
   Len m (List (zero_Node :: 'e Node)) = 0 \<and>
   Len m (Rlist (zero_Node :: 'e Node)) = 0 \<and>
   Func (zero_Node :: 'e Node) = None \<and>
   Len m (Enter zero_Func) = 0 \<and>
   Len m (Exit zero_Func) = 0 \<and>
   Len m (Cvars zero_Func) = 0 \<and>
   Len m (Inldcl zero_Func) = 0 \<and>
   Len m (Inl_Func zero_Func) = 0 \<and>
   Slice m zero_Nodes = [] \<and>
   Len m zero_Nodes = 0"
  by (simp add: Val_def Opt_def Len_def Slice_def zero_Node_def zero_Func_def zero_Nodes_def)

subsection \<open>Set, Append and AppendNodes\<close>

lemma Len_of_contents: "Len_of m c = int (length (contents m c))"
  by (simp add: Len_of_def Len_def contents_def Slice_def split: option.split)

lemma contents_zero: "vars m c = zero_Nodes \<Longrightarrow> contents m c = []"
  by (simp add: contents_def Slice_def zero_Nodes_def)

lemma contents_Set: "contents (Set m c s) c = s"
  by (cases s) (simp_all add: contents_def Slice_def Set_def set_slice_def new_slice_def)

lemma Set_empty_is_zero: "Set m c [] = m\<lparr>vars := (vars m)(c := zero_Nodes)\<rparr>"
proof -
  have "(vars m c)\<lparr>slice := None\<rparr> = zero_Nodes"
    by (cases "vars m c") (simp add: zero_Nodes_def)
  then show ?thesis
    by (simp add: Set_def set_slice_def)
qed

lemma contents_Append: "contents (Append m c a) c = contents m c @ a"
  by (simp add: contents_def Slice_def Append_def set_slice_def new_slice_def store_slice_def
      split: option.split)

lemma Append_nothing: "Append m c [] = m"
  by (simp add: Append_def store_slice_def split: option.split)

lemma contents_AppendNodes:
  assumes "n \<noteq> n2"
  shows "contents (AppendNodes m n n2) n = contents m n @ contents m n2"
  using assms
  by (simp add: contents_def Slice_def AppendNodes_def set_slice_def store_slice_def
      split: option.split)

lemma Len_of_AppendNodes: "Len_of (AppendNodes m n n2) n2 = 0"
  by (simp add: Len_of_def Len_def AppendNodes_def set_slice_def)

text \<open>With the receiver as its own argument, \<^verbatim>\<open>AppendNodes\<close> empties the container.\<close>

lemma contents_AppendNodes_self: "contents (AppendNodes m n n) n = []"
  by (simp add: contents_def Slice_def AppendNodes_def set_slice_def)

text \<open>
  C7. After \<^verbatim>\<open>c.Set(s)\<close> the contents of \<open>c\<close> are exactly \<open>s\<close>, whatever \<open>c\<close> held before.
  After \<^verbatim>\<open>c.Set\<close> of an empty slice, \<^verbatim>\<open>c.Len()\<close> is 0 and the variable \<open>c\<close> holds the zero
  value of \<^verbatim>\<open>Nodes\<close> again, the rest of the memory being as before; a following
  \<^verbatim>\<open>Append\<close> of \<open>a\<close> leaves \<open>c\<close> with the contents \<open>a\<close>, as it does on every uninitialised
  container.
\<close>

theorem Set_contents:
  "contents (Set m c s) c = s \<and>
   Len_of (Set m c []) c = 0 \<and>
   vars (Set m c []) c = zero_Nodes \<and>
   Set m c [] = m\<lparr>vars := (vars m)(c := zero_Nodes)\<rparr> \<and>
   contents (Append (Set m c []) c a) c = a \<and>
   (vars m0 c = zero_Nodes \<longrightarrow> contents (Append m0 c a) c = a)"
proof -
  have "contents (Set m c []) c = []"
    by (rule contents_Set)
  moreover have "vars (Set m c []) c = zero_Nodes"
    by (simp add: Set_empty_is_zero)
  ultimately show ?thesis
    by (simp add: contents_Set Set_empty_is_zero [symmetric] Len_of_contents contents_Append
        contents_zero)
qed

theorem Set_contents_witness:
  "contents (Set example_mem 0 [Some 20, Some 21]) 0 = [Some 20, Some 21] \<and>
   Len_of (Set example_mem 0 []) 0 = 0 \<and>
   vars (Set example_mem 0 []) 0 = zero_Nodes \<and>
   contents (Append (Set example_mem 0 []) 0 [Some 7]) 0 = [Some 7] \<and>
   vars example_mem 2 = zero_Nodes \<and>
   contents (Append example_mem 2 [Some 7]) 2 = [Some 7]"
  using Set_contents [of example_mem 0 "[Some 20, Some 21]" "[Some 7]" example_mem]
    Set_contents [of example_mem 2 "[]" "[Some 7]" example_mem]
  by (simp add: example_mem_def contents_def Slice_def Len_of_def Len_def Set_def Append_def
      set_slice_def new_slice_def store_slice_def zero_Nodes_def)

text \<open>
  C8. \<^verbatim>\<open>Append(a...)\<close> makes the contents of \<open>c\<close> its prior contents followed by \<open>a\<close>, in
  order; appending no item leaves the whole memory as it was. On an empty container,
  uninitialised or not, \<^verbatim>\<open>c.Append(x, y, z)\<close> gives \<^verbatim>\<open>Len() == 3\<close>, \<^verbatim>\<open>First() == x\<close>,
  \<^verbatim>\<open>Second() == y\<close> and \<^verbatim>\<open>Index(1) == y\<close>.
\<close>

theorem Append_contents:
  "contents (Append m c a) c = contents m c @ a \<and>
   Append m c [] = m \<and>
   (contents m c = [] \<longrightarrow>
      Len_of (Append m c [x, y, z]) c = 3 \<and>
      First (Append m c [x, y, z]) (vars (Append m c [x, y, z]) c) = Inr x \<and>
      Second (Append m c [x, y, z]) (vars (Append m c [x, y, z]) c) = Inr y \<and>
      Index (Append m c [x, y, z]) (vars (Append m c [x, y, z]) c) 1 = Inr y)"
proof -
  have "Len_of (Append m c [x, y, z]) c = 3 \<and>
      First (Append m c [x, y, z]) (vars (Append m c [x, y, z]) c) = Inr x \<and>
      Second (Append m c [x, y, z]) (vars (Append m c [x, y, z]) c) = Inr y \<and>
      Index (Append m c [x, y, z]) (vars (Append m c [x, y, z]) c) 1 = Inr y"
    if "contents m c = []"
    using that
    by (simp add: contents_def Slice_def Len_of_def Len_def First_def Second_def Index_def
        index_expr_def in_range_def Append_def set_slice_def new_slice_def store_slice_def
        split: option.splits)
  then show ?thesis
    by (simp add: contents_Append Append_nothing)
qed

theorem Append_contents_witness:
  "contents example_mem 2 = [] \<and>
   Len_of (Append example_mem 2 [Some 20, Some 21, Some 22]) 2 = 3 \<and>
   First (Append example_mem 2 [Some 20, Some 21, Some 22])
     (vars (Append example_mem 2 [Some 20, Some 21, Some 22]) 2) = Inr (Some 20) \<and>
   Second (Append example_mem 2 [Some 20, Some 21, Some 22])
     (vars (Append example_mem 2 [Some 20, Some 21, Some 22]) 2) = Inr (Some 21) \<and>
   Index (Append example_mem 2 [Some 20, Some 21, Some 22])
     (vars (Append example_mem 2 [Some 20, Some 21, Some 22]) 2) 1 = Inr (Some 21) \<and>
   contents (Append example_mem 2 [Some 20, Some 21, Some 22]) 2
     = [Some 20, Some 21, Some 22] \<and>
   contents example_mem 3 = [] \<and>
   Len_of (Append example_mem 3 [Some 20, Some 21, Some 22]) 3 = 3 \<and>
   contents (Append example_mem 0 [Some 20]) 0 = [Some 10, Some 11, Some 20]"
  using Append_contents [of example_mem 2 "[Some 20, Some 21, Some 22]" "Some 20" "Some 21" "Some 22"]
    Append_contents [of example_mem 3 "[Some 20, Some 21, Some 22]" "Some 20" "Some 21" "Some 22"]
    Append_contents [of example_mem 0 "[Some 20]"]
  by (simp add: example_mem_def contents_def Slice_def Len_of_def Len_def Append_def
      set_slice_def new_slice_def store_slice_def zero_Nodes_def)

text \<open>
  C9. For two different container variables \<open>n\<close> and \<open>n2\<close>, \<^verbatim>\<open>n.AppendNodes(n2)\<close> makes
  the contents of \<open>n\<close> its prior contents followed by the prior contents of \<open>n2\<close>, and
  \<^verbatim>\<open>n2.Len()\<close> is 0 afterwards; this holds whether either of them is uninitialised,
  empty or populated, and also when both point to the same slice variable.
\<close>

theorem AppendNodes_contents:
  "n \<noteq> n2 \<longrightarrow>
     contents (AppendNodes m n n2) n = contents m n @ contents m n2 \<and>
     Len_of (AppendNodes m n n2) n2 = 0"
  by (simp add: contents_AppendNodes Len_of_AppendNodes)

theorem AppendNodes_contents_witness:
  "(0::nat) \<noteq> 1 \<and>
   contents example_mem 0 = [Some 10, Some 11] \<and>
   contents example_mem 1 = [Some 12] \<and>
   contents (AppendNodes example_mem 0 1) 0 = [Some 10, Some 11, Some 12] \<and>
   Len_of (AppendNodes example_mem 0 1) 1 = 0 \<and>
   (2::nat) \<noteq> 1 \<and>
   contents example_mem 2 = [] \<and>
   contents (AppendNodes example_mem 2 1) 2 = [Some 12] \<and>
   Len_of (AppendNodes example_mem 2 1) 1 = 0 \<and>
   (0::nat) \<noteq> 2 \<and>
   contents (AppendNodes example_mem 0 2) 0 = [Some 10, Some 11] \<and>
   Len_of (AppendNodes example_mem 0 2) 2 = 0"
  using AppendNodes_contents [of 0 1 example_mem] AppendNodes_contents [of 2 1 example_mem]
    AppendNodes_contents [of 0 2 example_mem]
  by (simp add: example_mem_def contents_def Slice_def Len_of_def Len_def AppendNodes_def
      set_slice_def store_slice_def zero_Nodes_def)

end
